theory Spec2Isabelle
  imports Main
begin

section \<open>Data model (Notification.tsx, lines 7-33 and 77)\<close>

text \<open>
  \<^verbatim>\<open>NotificationState\<close> is a tagged union: a content notification with a severity, a
  headline, a message and an optional \<^verbatim>\<open>id\<close>, or a status-code notification carrying
  only the type 401 or 403.
\<close>

datatype severity = Info | Success | Warning | Error

datatype status_code = S401 | S403

text \<open>
  A \<^verbatim>\<open>ReactNode\<close> message: the code only asks whether \<^verbatim>\<open>typeof message === 'string'\<close>;
  every other node is opaque and identified by a number.
\<close>

datatype react_node = Str string | Node nat

record content =
  severity_n :: severity
  headline :: string
  message :: react_node
  id_n :: "string option"

datatype notification_state = Content content | StatusCode status_code

text \<open>The value of the \<^verbatim>\<open>type\<close> field of either shape.\<close>

datatype ntype = Sev severity | Code status_code

fun type_of :: "notification_state \<Rightarrow> ntype" where
  "type_of (Content c) = Sev (severity_n c)"
| "type_of (StatusCode t) = Code t"

text \<open>The \<^verbatim>\<open>id\<close> field read from either shape: \<^verbatim>\<open>undefined\<close> on a status-code notification.\<close>

fun id_of :: "notification_state \<Rightarrow> string option" where
  "id_of (Content c) = id_n c"
| "id_of (StatusCode t) = None"

text \<open>
  A close callback \<^verbatim>\<open>() => void\<close> handed out by the toaster is opaque; it is identified by a
  handle, and invoking it is recorded as a call.
\<close>

type_synonym handle = nat

text \<open>An element of the state list: \<^verbatim>\<open>NotificationState & { closeFn?: () => void }\<close>.\<close>

record entry =
  notif :: notification_state
  closeFn :: "handle option"

text \<open>The descriptor passed to \<^verbatim>\<open>toaster.enqueue\<close> (lines 92-103).\<close>

record toast =
  toast_type :: severity
  label :: string
  description :: "string option"
  render :: "react_node option"

text \<open>Everything the provider calls outside its own state, in the order of the calls.\<close>

datatype call = Enqueue toast | CloseAll | Invoke handle

text \<open>
  The provider: the \<^verbatim>\<open>useState\<close> cell holding the list, and the calls made so far on the
  toaster and on close callbacks.
\<close>

record provider =
  current :: "entry list"
  calls :: "call list"

definition initial :: provider where
  "initial = \<lparr>current = [], calls = []\<rparr>"

section \<open>Operations (Notification.tsx, lines 83-132)\<close>

text \<open>JavaScript truthiness of an optional string: \<^verbatim>\<open>undefined\<close> and \<^verbatim>\<open>''\<close> are falsy.\<close>

fun truthy :: "string option \<Rightarrow> bool" where
  "truthy None = False"
| "truthy (Some s) = (s \<noteq> [])"

text \<open>\<^verbatim>\<open>x.closeFn?.()\<close>: the callback is invoked when there is one.\<close>

fun invoke_opt :: "handle option \<Rightarrow> call list" where
  "invoke_opt None = []"
| "invoke_opt (Some h) = [Invoke h]"

text \<open>
  Lines 88-91: close the old notification with the same id. \<^verbatim>\<open>notifications\<close> is the list
  captured by the closure of the memoised context value.
\<close>

definition close_old :: "entry list \<Rightarrow> content \<Rightarrow> call list" where
  "close_old notifications notification =
     (if truthy (id_n notification)
         \<and> list_ex (\<lambda>n. id_of (notif n) = id_n notification) notifications
      then (case find (\<lambda>n. id_of (notif n) = id_n notification) notifications of
              None \<Rightarrow> []
            | Some n \<Rightarrow> invoke_opt (closeFn n))
      else [])"

text \<open>Lines 92-103: the descriptor built for the toaster.\<close>

definition toast_of :: "content \<Rightarrow> toast" where
  "toast_of notification =
     \<lparr>toast_type = severity_n notification,
      label = headline notification,
      description = (case message notification of Str s \<Rightarrow> Some s | Node k \<Rightarrow> None),
      render = (case message notification of Str s \<Rightarrow> None | Node k \<Rightarrow> Some (Node k))\<rparr>"

text \<open>Line 85: the updater of the status-code branch.\<close>

definition status_update :: "status_code \<Rightarrow> entry list \<Rightarrow> entry list" where
  "status_update t old =
     filter (\<lambda>e. type_of (notif e) \<noteq> Code S401 \<and> type_of (notif e) \<noteq> Code S403) old
       @ [\<lparr>notif = StatusCode t, closeFn = None\<rparr>]"

text \<open>Lines 105-108: the updater applied once \<^verbatim>\<open>enqueue\<close> has resolved to \<^verbatim>\<open>closeFn\<close>.\<close>

definition content_update :: "content \<Rightarrow> handle option \<Rightarrow> entry list \<Rightarrow> entry list" where
  "content_update notification cf old =
     (let updatedNotifications = filter (\<lambda>n. id_of (notif n) \<noteq> id_n notification) old
      in updatedNotifications @ [\<lparr>notif = Content notification, closeFn = cf\<rparr>])"

text \<open>
  \<^verbatim>\<open>addNotification\<close> is an async function with one \<^verbatim>\<open>await\<close>. It runs in two parts: up to
  the \<^verbatim>\<open>await\<close> (lines 84-103), where it either returns (status code) or is suspended on the
  toaster; and after the toaster has answered (lines 105-110).
\<close>

datatype progress = Returned "handle option" | Awaiting content

definition addNotification :: "entry list \<Rightarrow> notification_state \<Rightarrow> provider \<Rightarrow> progress \<times> provider" where
  "addNotification notifications notification w =
     (case notification of
        StatusCode t \<Rightarrow> (Returned None, w\<lparr>current := status_update t (current w)\<rparr>)
      | Content c \<Rightarrow>
          (Awaiting c, w\<lparr>calls := calls w @ close_old notifications c @ [Enqueue (toast_of c)]\<rparr>))"

text \<open>
  The toaster's answer to \<^verbatim>\<open>enqueue\<close>: the promise resolves to a close callback (or to
  \<^verbatim>\<open>undefined\<close>), or it rejects. A rejection is not caught: the function rejects and the
  list is left alone.
\<close>

datatype answer = Resolves "handle option" | Rejects

datatype failure = EnqueueRejected

definition addNotification_resume :: "content \<Rightarrow> answer \<Rightarrow> provider \<Rightarrow> (failure + handle option) \<times> provider" where
  "addNotification_resume notification a w =
     (case a of
        Rejects \<Rightarrow> (Inl EnqueueRejected, w)
      | Resolves cf \<Rightarrow> (Inr cf, w\<lparr>current := content_update notification cf (current w)\<rparr>))"

text \<open>Lines 112-118.\<close>

definition closeNotification :: "entry list \<Rightarrow> string \<Rightarrow> provider \<Rightarrow> provider" where
  "closeNotification notifications i w =
     (case find (\<lambda>n. id_of (notif n) = Some i) notifications of
        None \<Rightarrow> w
      | Some found \<Rightarrow>
          w\<lparr>calls := calls w @ invoke_opt (closeFn found),
            current := filter (\<lambda>n. id_of (notif n) \<noteq> Some i) (current w)\<rparr>)"

text \<open>Lines 119-122.\<close>

definition resetNotifications :: "provider \<Rightarrow> provider" where
  "resetNotifications w = w\<lparr>calls := calls w @ [CloseAll], current := []\<rparr>"

text \<open>Lines 126-132: the cleanup of the effect, run when the provider unmounts.\<close>

definition teardown :: "provider \<Rightarrow> provider" where
  "teardown w = w\<lparr>calls := calls w @ [CloseAll], current := []\<rparr>"

section \<open>Observations on the list\<close>

text \<open>Whether an entry is a status-code notification, read off its shape.\<close>

fun is_status_code :: "entry \<Rightarrow> bool" where
  "is_status_code e = (case notif e of StatusCode t \<Rightarrow> True | Content c \<Rightarrow> False)"

text \<open>The \<^verbatim>\<open>id\<close> fields of a list, in order, and the entries carrying a given \<^verbatim>\<open>id\<close>.\<close>

definition ids :: "entry list \<Rightarrow> string option list" where
  "ids ns = map (\<lambda>n. id_of (notif n)) ns"

definition with_id :: "string option \<Rightarrow> entry list \<Rightarrow> entry list" where
  "with_id i ns = filter (\<lambda>n. id_of (notif n) = i) ns"

text \<open>At most one entry of type 401 and at most one of type 403.\<close>

definition status_unique :: "entry list \<Rightarrow> bool" where
  "status_unique ns =
     (length (filter (\<lambda>n. type_of (notif n) = Code S401) ns) \<le> 1
      \<and> length (filter (\<lambda>n. type_of (notif n) = Code S403) ns) \<le> 1)"

text \<open>No present \<^verbatim>\<open>id\<close> occurs on two entries.\<close>

definition ids_unique :: "entry list \<Rightarrow> bool" where
  "ids_unique ns = distinct (filter (\<lambda>i. i \<noteq> None) (ids ns))"

subsection \<open>Sample notifications\<close>

text \<open>The two notifications of the usage scenario, both with the id \<^verbatim>\<open>'a'\<close>.\<close>

abbreviation boom :: content where
  "boom \<equiv> \<lparr>severity_n = Error, headline = ''E'', message = Str ''boom'', id_n = Some ''a''\<rparr>"

abbreviation done_n :: content where
  "done_n \<equiv> \<lparr>severity_n = Success, headline = ''OK'', message = Str ''done'', id_n = Some ''a''\<rparr>"

text \<open>The notification of Module.tsx, line 26: no id.\<close>

abbreviation clicked :: content where
  "clicked \<equiv> \<lparr>severity_n = Info, headline = ''KolButton clicked'',
      message = Str ''KolButton 0 clicked'', id_n = None\<rparr>"

text \<open>Two notifications whose id is the empty string.\<close>

abbreviation unnamed_first :: content where
  "unnamed_first \<equiv> \<lparr>severity_n = Error, headline = ''E'', message = Str ''boom'', id_n = Some []\<rparr>"

abbreviation unnamed_second :: content where
  "unnamed_second \<equiv> \<lparr>severity_n = Success, headline = ''OK'', message = Str ''done'', id_n = Some []\<rparr>"

section \<open>Facts about the updaters\<close>

lemma keeps_content:
  "(type_of (notif e) \<noteq> Code S401 \<and> type_of (notif e) \<noteq> Code S403) = (\<not> is_status_code e)"
  by (cases "notif e") (auto intro: status_code.exhaust)

lemma with_id_content_update:
  "with_id (id_n n) (content_update n cf old) = [\<lparr>notif = Content n, closeFn = cf\<rparr>]"
  by (simp add: with_id_def content_update_def filter_empty_conv)


lemma length_filter_filter_le:
  "length (filter P (filter Q xs)) \<le> length (filter P xs)"
  by (induction xs) auto

lemma status_unique_filter: "status_unique ns \<Longrightarrow> status_unique (filter Q ns)"
  unfolding status_unique_def
  using length_filter_filter_le [of "\<lambda>n. type_of (notif n) = Code S401" Q ns]
    length_filter_filter_le [of "\<lambda>n. type_of (notif n) = Code S403" Q ns]
  by linarith

lemma no_status_code_kept:
  "filter (\<lambda>n. type_of (notif n) = Code c)
     (filter (\<lambda>e. type_of (notif e) \<noteq> Code S401 \<and> type_of (notif e) \<noteq> Code S403) old) = []"
  by (cases c) (auto simp: filter_empty_conv)

lemma status_unique_status_update: "status_unique (status_update t old)"
  unfolding status_unique_def status_update_def filter_append no_status_code_kept
  by simp

lemma status_unique_content_update:
  "status_unique old \<Longrightarrow> status_unique (content_update n cf old)"
  using status_unique_filter [of old "\<lambda>e. id_of (notif e) \<noteq> id_n n"]
  by (simp add: status_unique_def content_update_def)

lemma ids_unique_filter: "ids_unique ns \<Longrightarrow> ids_unique (filter Q ns)"
  unfolding ids_unique_def ids_def
  by (induction ns) force+

lemma ids_unique_status_update: "ids_unique old \<Longrightarrow> ids_unique (status_update t old)"
  using ids_unique_filter [of old "\<lambda>e. type_of (notif e) \<noteq> Code S401 \<and> type_of (notif e) \<noteq> Code S403"]
  by (simp add: ids_unique_def ids_def status_update_def)

lemma ids_unique_content_update:
  "ids_unique old \<Longrightarrow> ids_unique (content_update n cf old)"
  using ids_unique_filter [of old "\<lambda>e. id_of (notif e) \<noteq> id_n n"]
  by (auto simp: ids_unique_def ids_def content_update_def)

section \<open>Adding a content notification\<close>

text \<open>
  With a non-empty id that the captured list carries, the first entry with that id has its
  close callback invoked, and then the toaster is called.
\<close>

lemma close_old_first_match:
  assumes "truthy (id_n c)"
    and "find (\<lambda>n. id_of (notif n) = id_n c) notifications = Some found"
  shows "calls (snd (addNotification notifications (Content c) w))
           = calls w @ invoke_opt (closeFn found) @ [Enqueue (toast_of c)]"
proof -
  have "list_ex (\<lambda>n. id_of (notif n) = id_n c) notifications"
    using assms(2) by (auto simp: find_Some_iff list_ex_iff)
  then show ?thesis
    using assms by (simp add: addNotification_def close_old_def)
qed

text \<open>The usage scenario: the second notification with id \<^verbatim>\<open>'a'\<close> closes and replaces the first.\<close>

lemma scenario_same_id:
  "addNotification [\<lparr>notif = Content boom, closeFn = Some 1\<rparr>] (Content done_n)
      \<lparr>current = [\<lparr>notif = Content boom, closeFn = Some 1\<rparr>], calls = []\<rparr>
     = (Awaiting done_n,
        \<lparr>current = [\<lparr>notif = Content boom, closeFn = Some 1\<rparr>],
         calls = [Invoke 1, Enqueue (toast_of done_n)]\<rparr>)
   \<and> addNotification_resume done_n (Resolves (Some 2))
        \<lparr>current = [\<lparr>notif = Content boom, closeFn = Some 1\<rparr>],
         calls = [Invoke 1, Enqueue (toast_of done_n)]\<rparr>
     = (Inr (Some 2),
        \<lparr>current = [\<lparr>notif = Content done_n, closeFn = Some 2\<rparr>],
         calls = [Invoke 1, Enqueue (toast_of done_n)]\<rparr>)"
  by (simp add: addNotification_def addNotification_resume_def close_old_def content_update_def)

text \<open>
  C1: adding a content notification whose id equals the id of an entry of the list invokes
  that entry's close callback before the toaster is called, and after the toaster has
  resolved the list holds exactly one entry with that id, the new one. The second half holds
  for every id (\<open>with_id_content_update\<close>) and the first for every non-empty id
  (\<open>close_old_first_match\<close>). With the empty string as id the test on line 89 is false: the
  run below adds \<^verbatim>\<open>{id: '', ...}\<close> while an entry with id \<^verbatim>\<open>''\<close> and close callback 7 is in
  the list. The only call made is \<^verbatim>\<open>enqueue\<close>; callback 7 is never invoked, and the entry
  holding it is dropped from the list once the toaster resolves.
\<close>

theorem empty_id_old_toast_left_open:
  "list_ex (\<lambda>n. id_of (notif n) = id_n unnamed_second)
      [\<lparr>notif = Content unnamed_first, closeFn = Some 7\<rparr>]
   \<and> addNotification [\<lparr>notif = Content unnamed_first, closeFn = Some 7\<rparr>] (Content unnamed_second)
        \<lparr>current = [\<lparr>notif = Content unnamed_first, closeFn = Some 7\<rparr>], calls = []\<rparr>
      = (Awaiting unnamed_second,
         \<lparr>current = [\<lparr>notif = Content unnamed_first, closeFn = Some 7\<rparr>],
          calls = [Enqueue \<lparr>toast_type = Success, label = ''OK'', description = Some ''done'',
                     render = None\<rparr>]\<rparr>)
   \<and> addNotification_resume unnamed_second (Resolves (Some 8))
        \<lparr>current = [\<lparr>notif = Content unnamed_first, closeFn = Some 7\<rparr>],
         calls = [Enqueue \<lparr>toast_type = Success, label = ''OK'', description = Some ''done'',
                    render = None\<rparr>]\<rparr>
      = (Inr (Some 8),
         \<lparr>current = [\<lparr>notif = Content unnamed_second, closeFn = Some 8\<rparr>],
          calls = [Enqueue \<lparr>toast_type = Success, label = ''OK'', description = Some ''done'',
                     render = None\<rparr>]\<rparr>)"
  by (simp add: addNotification_def addNotification_resume_def close_old_def toast_of_def
      content_update_def)

text \<open>
  C2: two adds with the same present id have resolved. Whichever of the two list updates is
  applied last, the entry it appends is the only entry with that id in the final list; the
  order of the requests plays no part.
\<close>

theorem last_completed_wins:
  assumes "id_n n1 = Some i" and "id_n n2 = Some i"
  shows "with_id (Some i) (current (snd (addNotification_resume n2 (Resolves c2)
             (snd (addNotification_resume n1 (Resolves c1) w)))))
           = [\<lparr>notif = Content n2, closeFn = c2\<rparr>]
   \<and> with_id (Some i) (current (snd (addNotification_resume n1 (Resolves c1)
             (snd (addNotification_resume n2 (Resolves c2) w)))))
           = [\<lparr>notif = Content n1, closeFn = c1\<rparr>]"
  using with_id_content_update [of n2 c2] with_id_content_update [of n1 c1] assms
  by (simp add: addNotification_resume_def)

theorem last_completed_wins_witness:
  "id_n boom = Some ''a'' \<and> id_n done_n = Some ''a''
   \<and> with_id (Some ''a'') (current (snd (addNotification_resume done_n (Resolves (Some 2))
         (snd (addNotification_resume boom (Resolves (Some 1)) initial)))))
       = [\<lparr>notif = Content done_n, closeFn = Some 2\<rparr>]
   \<and> with_id (Some ''a'') (current (snd (addNotification_resume boom (Resolves (Some 1))
         (snd (addNotification_resume done_n (Resolves (Some 2)) initial)))))
       = [\<lparr>notif = Content boom, closeFn = Some 1\<rparr>]"
  using last_completed_wins [of boom "''a''" done_n "Some 2" "Some 1" initial]
  by simp

text \<open>
  C4: when the added content notification has no id, the list update made once the toaster
  has resolved removes every entry without an id, status-code entries and id-less content
  entries alike, and appends the new entry: afterwards the new entry is the only one
  without an id, no status-code entry is left, and the entries with an id are kept in order.
\<close>

theorem absent_id_purges_idless:
  assumes "id_n n = None"
  shows "with_id None (current (snd (addNotification_resume n (Resolves cf) w)))
           = [\<lparr>notif = Content n, closeFn = cf\<rparr>]
   \<and> filter is_status_code (current (snd (addNotification_resume n (Resolves cf) w))) = []
   \<and> current (snd (addNotification_resume n (Resolves cf) w))
       = filter (\<lambda>e. id_of (notif e) \<noteq> None) (current w) @ [\<lparr>notif = Content n, closeFn = cf\<rparr>]"
  using assms
  apply (simp add: addNotification_resume_def content_update_def with_id_def filter_empty_conv)
  apply (auto split: notification_state.splits)
  done

theorem absent_id_purges_idless_witness:
  "id_n clicked = None
   \<and> with_id None (current (snd (addNotification_resume clicked (Resolves (Some 3))
        \<lparr>current = [\<lparr>notif = Content boom, closeFn = Some 1\<rparr>,
                    \<lparr>notif = StatusCode S401, closeFn = None\<rparr>,
                    \<lparr>notif = Content clicked, closeFn = Some 2\<rparr>], calls = []\<rparr>)))
       = [\<lparr>notif = Content clicked, closeFn = Some 3\<rparr>]
   \<and> current (snd (addNotification_resume clicked (Resolves (Some 3))
        \<lparr>current = [\<lparr>notif = Content boom, closeFn = Some 1\<rparr>,
                    \<lparr>notif = StatusCode S401, closeFn = None\<rparr>,
                    \<lparr>notif = Content clicked, closeFn = Some 2\<rparr>], calls = []\<rparr>))
       = [\<lparr>notif = Content boom, closeFn = Some 1\<rparr>, \<lparr>notif = Content clicked, closeFn = Some 3\<rparr>]"
  using absent_id_purges_idless [of clicked "Some 3"
      "\<lparr>current = [\<lparr>notif = Content boom, closeFn = Some 1\<rparr>,
                    \<lparr>notif = StatusCode S401, closeFn = None\<rparr>,
                    \<lparr>notif = Content clicked, closeFn = Some 2\<rparr>], calls = []\<rparr>"]
  by (simp add: with_id_def)

text \<open>
  C7: when the added content notification has a present id that no entry of the list
  carries, the list after the toaster has resolved is the old list with the new entry
  appended: one entry longer, and every old entry still there.
\<close>

theorem fresh_id_adds_one:
  assumes "id_n n = Some i" and "Some i \<notin> set (ids (current w))"
  shows "current (snd (addNotification_resume n (Resolves cf) w))
           = current w @ [\<lparr>notif = Content n, closeFn = cf\<rparr>]
   \<and> length (current (snd (addNotification_resume n (Resolves cf) w))) = Suc (length (current w))
   \<and> set (current w) \<subseteq> set (current (snd (addNotification_resume n (Resolves cf) w)))"
proof -
  have "filter (\<lambda>e. id_of (notif e) \<noteq> Some i) (current w) = current w"
    using assms(2) by (force simp: ids_def filter_id_conv)
  then have "content_update n cf (current w) = current w @ [\<lparr>notif = Content n, closeFn = cf\<rparr>]"
    using assms(1) by (simp add: content_update_def)
  then show ?thesis
    by (auto simp: addNotification_resume_def)
qed

theorem fresh_id_adds_one_witness:
  "id_n boom = Some ''a''
   \<and> Some ''a'' \<notin> set (ids [\<lparr>notif = StatusCode S403, closeFn = None\<rparr>])
   \<and> current (snd (addNotification_resume boom (Resolves (Some 1))
        \<lparr>current = [\<lparr>notif = StatusCode S403, closeFn = None\<rparr>], calls = []\<rparr>))
       = [\<lparr>notif = StatusCode S403, closeFn = None\<rparr>, \<lparr>notif = Content boom, closeFn = Some 1\<rparr>]"
  using fresh_id_adds_one [of boom "''a''"
      "\<lparr>current = [\<lparr>notif = StatusCode S403, closeFn = None\<rparr>], calls = []\<rparr>" "Some 1"]
  by (simp add: ids_def)

section \<open>Adding a status-code notification\<close>

text \<open>
  C3: for a status-code notification (401 or 403) and every list, \<^verbatim>\<open>addNotification\<close>
  returns at once with no close handle and makes no call on the toaster; the new list is
  the old content notifications, unchanged and in order, followed by the new status-code
  entry, which is the only status-code entry left.
\<close>

theorem addNotification_status_code:
  "fst (addNotification notifications (StatusCode t) w) = Returned None
   \<and> calls (snd (addNotification notifications (StatusCode t) w)) = calls w
   \<and> current (snd (addNotification notifications (StatusCode t) w))
       = filter (\<lambda>e. \<not> is_status_code e) (current w) @ [\<lparr>notif = StatusCode t, closeFn = None\<rparr>]
   \<and> filter is_status_code (current (snd (addNotification notifications (StatusCode t) w)))
       = [\<lparr>notif = StatusCode t, closeFn = None\<rparr>]
   \<and> filter (\<lambda>e. \<not> is_status_code e) (current (snd (addNotification notifications (StatusCode t) w)))
       = filter (\<lambda>e. \<not> is_status_code e) (current w)"
  by (simp add: addNotification_def status_update_def keeps_content del: is_status_code.simps)
    (simp add: filter_empty_conv)

section \<open>Closing by id\<close>





section \<open>Reset and teardown\<close>

text \<open>
  C8: for every list, \<^verbatim>\<open>resetNotifications\<close> calls the toaster's \<^verbatim>\<open>closeAll\<close> (one call
  appended to the calls made so far) and leaves the list empty; in particular when the list
  is already empty.
\<close>

theorem resetNotifications_clears:
  "calls (resetNotifications w) = calls w @ [CloseAll]
   \<and> current (resetNotifications w) = []
   \<and> resetNotifications \<lparr>current = [], calls = cs\<rparr> = \<lparr>current = [], calls = cs @ [CloseAll]\<rparr>"
  by (simp add: resetNotifications_def)

text \<open>
  C9: the cleanup run at unmount calls the toaster's \<^verbatim>\<open>closeAll\<close> exactly once (the calls
  made hold one \<^verbatim>\<open>closeAll\<close> more than before) and clears the list, whatever the list held.
\<close>

theorem teardown_closes_all_once:
  "calls (teardown w) = calls w @ [CloseAll]
   \<and> current (teardown w) = []
   \<and> length (filter (\<lambda>c. c = CloseAll) (calls (teardown w)))
       = Suc (length (filter (\<lambda>c. c = CloseAll) (calls w)))"
  by (simp add: teardown_def)

section \<open>Invariants of the list\<close>

text \<open>
  C5: the list holds at most one 401 entry and at most one 403 entry. This is true of the
  initial empty list and every operation keeps it: \<^verbatim>\<open>addNotification\<close> up to its
  \<^verbatim>\<open>await\<close> (which is all of the status-code branch), its continuation after the toaster
  has answered, \<^verbatim>\<open>closeNotification\<close>, \<^verbatim>\<open>resetNotifications\<close> and the teardown.
\<close>

theorem status_unique_invariant:
  "status_unique (current initial)
   \<and> (status_unique (current w) \<longrightarrow>
        status_unique (current (snd (addNotification notifications n w)))
        \<and> status_unique (current (snd (addNotification_resume c a w)))
        \<and> status_unique (current (closeNotification notifications i w))
        \<and> status_unique (current (resetNotifications w))
        \<and> status_unique (current (teardown w)))"
proof -
  have "status_unique []" by (simp add: status_unique_def)
  then show ?thesis
    by (auto simp: initial_def addNotification_def addNotification_resume_def
        closeNotification_def resetNotifications_def teardown_def
        status_unique_status_update status_unique_content_update status_unique_filter
        split: notification_state.splits answer.splits option.splits)
qed

theorem status_unique_invariant_witness:
  "status_unique [\<lparr>notif = StatusCode S401, closeFn = None\<rparr>]
   \<and> status_unique (current (snd (addNotification [] (StatusCode S403)
        \<lparr>current = [\<lparr>notif = StatusCode S401, closeFn = None\<rparr>], calls = []\<rparr>)))
   \<and> status_unique (current (snd (addNotification_resume boom (Resolves (Some 1))
        \<lparr>current = [\<lparr>notif = StatusCode S401, closeFn = None\<rparr>], calls = []\<rparr>)))"
  using status_unique_invariant [of "\<lparr>current = [\<lparr>notif = StatusCode S401, closeFn = None\<rparr>], calls = []\<rparr>"
      "[]" "StatusCode S403" boom "Resolves (Some 1)" "''a''"]
  by (simp add: status_unique_def)

text \<open>
  C6: no present id occurs on two entries of the list. This is true of the initial empty
  list and every operation keeps it: both parts of \<^verbatim>\<open>addNotification\<close>,
  \<^verbatim>\<open>closeNotification\<close>, \<^verbatim>\<open>resetNotifications\<close> and the teardown. In particular the
  content update has filtered out every entry with the new notification's id before it
  appends: none of the entries before the appended one carries that id, the appended entry
  is the new notification with its close callback, and it is the only entry with that id.
\<close>

theorem ids_unique_invariant:
  "ids_unique (current initial)
   \<and> (ids_unique (current w) \<longrightarrow>
        ids_unique (current (snd (addNotification notifications n w)))
        \<and> ids_unique (current (snd (addNotification_resume c a w)))
        \<and> ids_unique (current (closeNotification notifications i w))
        \<and> ids_unique (current (resetNotifications w))
        \<and> ids_unique (current (teardown w)))
   \<and> id_n c \<notin> set (ids (butlast (current (snd (addNotification_resume c (Resolves cf) w)))))
   \<and> current (snd (addNotification_resume c (Resolves cf) w)) \<noteq> []
   \<and> last (current (snd (addNotification_resume c (Resolves cf) w)))
       = \<lparr>notif = Content c, closeFn = cf\<rparr>
   \<and> with_id (id_n c) (current (snd (addNotification_resume c (Resolves cf) w)))
       = [\<lparr>notif = Content c, closeFn = cf\<rparr>]"
proof -
  have "ids_unique []" by (simp add: ids_unique_def ids_def)
  moreover have "id_n c \<notin> set (ids (butlast (content_update c cf (current w))))"
    by (auto simp: content_update_def ids_def)
  moreover have "content_update c cf (current w) \<noteq> []
      \<and> last (content_update c cf (current w)) = \<lparr>notif = Content c, closeFn = cf\<rparr>"
    by (simp add: content_update_def)
  moreover note with_id_content_update [of c cf "current w"]
  ultimately show ?thesis
    by (auto simp: initial_def addNotification_def addNotification_resume_def
        closeNotification_def resetNotifications_def teardown_def
        ids_unique_status_update ids_unique_content_update ids_unique_filter
        split: notification_state.splits answer.splits option.splits)
qed

theorem ids_unique_invariant_witness:
  "ids_unique [\<lparr>notif = Content boom, closeFn = Some 1\<rparr>]
   \<and> ids_unique (current (snd (addNotification_resume done_n (Resolves (Some 2))
        \<lparr>current = [\<lparr>notif = Content boom, closeFn = Some 1\<rparr>], calls = []\<rparr>)))
   \<and> ids_unique (current (closeNotification [\<lparr>notif = Content boom, closeFn = Some 1\<rparr>] ''a''
        \<lparr>current = [\<lparr>notif = Content boom, closeFn = Some 1\<rparr>], calls = []\<rparr>))
   \<and> current (snd (addNotification_resume done_n (Resolves (Some 2))
        \<lparr>current = [\<lparr>notif = Content boom, closeFn = Some 1\<rparr>], calls = []\<rparr>))
       = [\<lparr>notif = Content done_n, closeFn = Some 2\<rparr>]"
  using ids_unique_invariant [of "\<lparr>current = [\<lparr>notif = Content boom, closeFn = Some 1\<rparr>], calls = []\<rparr>"
      "[\<lparr>notif = Content boom, closeFn = Some 1\<rparr>]" "Content done_n" done_n "Resolves (Some 2)" "''a''" "Some 2"]
  by (simp add: ids_unique_def ids_def addNotification_resume_def content_update_def)

end
